theory Spec2Isabelle
  imports Main "HOL-Library.Sublist" "HOL-Library.AList" "HOL-Library.Multiset"
begin

section \<open>Strings and values as the routes use them\<close>

text \<open>
  Labels are modelled as ASCII strings. \<open>toUpperCase\<close> maps the letters a..z to A..Z and
  leaves every other character alone; \<open>str_includes s t\<close> is \<open>s.includes(t)\<close>.
\<close>

definition upper_char :: "char \<Rightarrow> char" where
  "upper_char c =
     (case map_of (zip ''abcdefghijklmnopqrstuvwxyz'' ''ABCDEFGHIJKLMNOPQRSTUVWXYZ'') c of
        Some u \<Rightarrow> u
      | None \<Rightarrow> c)"

definition toUpperCase :: "string \<Rightarrow> string" where
  "toUpperCase s = map upper_char s"

fun str_includes :: "string \<Rightarrow> string \<Rightarrow> bool" where
  "str_includes [] t = (t = [])"
| "str_includes (c # cs) t = (prefix t (c # cs) \<or> str_includes cs t)"

text \<open>
  \<open>a || b\<close> on values that are a string or \<open>undefined\<close> (\<open>None\<close>): the left operand
  is taken when it is truthy, that is, a non-empty string.
\<close>

definition js_or :: "string option \<Rightarrow> string option \<Rightarrow> string option" where
  "js_or a b = (if a = None \<or> a = Some [] then b else a)"

definition js_or_str :: "string option \<Rightarrow> string \<Rightarrow> string" where
  "js_or_str a d = (case a of None \<Rightarrow> d | Some s \<Rightarrow> if s = [] then d else s)"

type_synonym timestamp = int

section \<open>Data model\<close>

text \<open>
  A calendar event as the handlers see it: the label \<open>summary\<close>, the two boundaries
  \<open>start\<close> and \<open>end\<close> (field \<open>end'\<close> here), each carrying \<open>dateTime\<close> or \<open>date\<close>,
  and every other property of the resource (key and serialised value) in \<open>others\<close>.
  A property that is absent is \<open>None\<close>.
\<close>

record boundary =
  dateTime :: "string option"
  date :: "string option"

record event =
  summary :: "string option"
  start :: "boundary option"
  end' :: "boundary option"
  others :: "(string \<times> string) list"

text \<open>Table \<open>Appointment\<close> of the migration; \<open>googleEventId\<close> and \<open>patientId\<close> are nullable.\<close>

datatype AppointmentStatus = AVAILABLE | BOOKED | CANCELLED

record appointment =
  appointment_id :: nat
  startTime :: timestamp
  endTime :: timestamp
  status :: AppointmentStatus
  googleEventId :: "string option"
  patientId :: "nat option"
  createdAt :: timestamp

text \<open>Table \<open>User\<close>, as far as the migration shows it.\<close>

datatype UserRole = PATIENT | ADMIN | CAREGIVER

record user =
  user_id :: nat
  fullName :: "string option"
  role :: UserRole

text \<open>
  The state the routes act on: the module variable \<open>tokensSet\<close>, the remote calendar
  (event id and stored representation), the ledger table with its \<open>SERIAL\<close> counter, and
  the user table.
\<close>

record world =
  tokensSet :: bool
  calendar :: "(string \<times> event) list"
  appointments :: "appointment list"
  next_id :: nat
  users :: "user list"

text \<open>
  What a request finds outside the process: whether each call to a backing service throws,
  the result of \<open>new Date(s)\<close> for a string (\<open>None\<close> is an invalid date), the two clock
  values computed by the listing route, the database clock, and the result of
  \<open>jwt.verify\<close> for a token (the \<open>id\<close> of the decoded payload, \<open>None\<close> when it throws).
\<close>

record env =
  getToken_throws :: bool
  list_throws :: bool
  get_throws :: bool
  update_throws :: bool
  create_throws :: bool
  updateMany_throws :: bool
  findMany_throws :: bool
  findUnique_throws :: bool
  Date_parse :: "string \<Rightarrow> timestamp option"
  jwt_verify :: "string \<Rightarrow> nat option"
  now :: timestamp
  oneMonthFromNow :: timestamp
  db_now :: timestamp

text \<open>
  The part of the Express request the code touches: the \<open>authorization\<close> header and the
  two properties \<open>req.user\<close> and \<open>req.userId\<close>. A property that was never assigned
  reads as \<open>undefined\<close> (\<open>None\<close>); that is how both are when the request arrives.
\<close>

record req =
  authorization :: "string option"
  req_user :: "user option"
  req_userId :: "nat option"

definition incoming :: "string option \<Rightarrow> req" where
  "incoming header = \<lparr>authorization = header, req_user = None, req_userId = None\<rparr>"

datatype payload =
    Text string
  | EventList "event list"
  | AppointmentRow appointment
  | AppointmentRows "appointment list"
  | Message string
  | Redirect string

record response =
  code :: nat
  body :: payload

definition send :: "nat \<Rightarrow> string \<Rightarrow> response" where
  "send c s = \<lparr>code = c, body = Text s\<rparr>"

definition json :: "payload \<Rightarrow> response" where
  "json p = \<lparr>code = 200, body = p\<rparr>"

definition new_Date :: "env \<Rightarrow> string option \<Rightarrow> timestamp option" where
  "new_Date ev x = (case x of None \<Rightarrow> None | Some s \<Rightarrow> Date_parse ev s)"

section \<open>The backing services\<close>

definition available_label :: "event \<Rightarrow> bool" where
  "available_label ev = str_includes (toUpperCase (js_or_str (summary ev) [])) ''AVAILABLE''"

definition event_start :: "env \<Rightarrow> event \<Rightarrow> timestamp option" where
  "event_start en ev =
     (case start ev of None \<Rightarrow> None | Some b \<Rightarrow> new_Date en (js_or (dateTime b) (date b)))"

definition event_end :: "env \<Rightarrow> event \<Rightarrow> timestamp option" where
  "event_end en ev =
     (case end' ev of None \<Rightarrow> None | Some b \<Rightarrow> new_Date en (js_or (dateTime b) (date b)))"

definition overlaps :: "env \<Rightarrow> timestamp \<Rightarrow> timestamp \<Rightarrow> event \<Rightarrow> bool" where
  "overlaps en tmin tmax ev =
     (case (event_start en ev, event_end en ev) of
        (Some s, Some t) \<Rightarrow> s < tmax \<and> tmin < t
      | _ \<Rightarrow> False)"

definition start_key :: "env \<Rightarrow> event \<Rightarrow> timestamp" where
  "start_key en ev = (case event_start en ev of Some s \<Rightarrow> s | None \<Rightarrow> 0)"

text \<open>
  Modelled from the spec: the calendar capability
  \<open>list(calendarId, timeMin, timeMax, expandRecurring, orderBy) -> sequence<Slot>\<close>,
  \<open>get(calendarId, slotId) -> Slot | NotFound\<close> and
  \<open>update(calendarId, slotId, fullSlotRepresentation) -> Slot\<close>. The calendar holds single
  slots (recurring series already expanded). \<open>list\<close> gives the slots overlapping the
  window in ascending order of start; \<open>update\<close> overwrites the stored representation with
  the one it is given. \<open>Inl ()\<close> is a call that throws.

  \<open>get\<close> resolves with the stored slot. For an id the calendar does not hold, the
  calendar answers 404 and the client rejects the promise: \<open>NotFound\<close> reaches the route
  as an exception, never as a reply without data.
\<close>

definition events_list :: "env \<Rightarrow> world \<Rightarrow> timestamp \<Rightarrow> timestamp \<Rightarrow> unit + event list option" where
  "events_list en w tmin tmax =
     (if list_throws en then Inl ()
      else Inr (Some (sort_key (start_key en)
                        (filter (overlaps en tmin tmax) (map snd (calendar w))))))"

definition events_get :: "env \<Rightarrow> world \<Rightarrow> string \<Rightarrow> unit + event option" where
  "events_get en w eventId =
     (if get_throws en then Inl ()
      else case map_of (calendar w) eventId of
        None \<Rightarrow> Inl ()
      | Some ev \<Rightarrow> Inr (Some ev))"

definition events_update :: "env \<Rightarrow> world \<Rightarrow> string \<Rightarrow> event \<Rightarrow> unit + world" where
  "events_update en w eventId resource =
     (if update_throws en \<or> map_of (calendar w) eventId = None then Inl ()
      else Inr (w\<lparr>calendar := AList.update eventId resource (calendar w)\<rparr>))"

text \<open>
  Modelled from the spec: the ledger capability \<open>create(fields) -> Row\<close>,
  \<open>findMany(filter, order) -> sequence<Row>\<close> and \<open>updateMany(filter, fields) -> count\<close>.
  \<open>create\<close> appends one row with the next \<open>SERIAL\<close> id and the database clock as
  \<open>createdAt\<close>; both time columns are \<open>NOT NULL\<close>, so an invalid date is refused. A
  field given as \<open>undefined\<close> is a field not given: in \<open>create\<close> the nullable column
  \<open>patientId\<close> is then stored as NULL, and in a filter the condition on it is left out
  (\<open>where_eq\<close>).
\<close>

definition where_eq :: "'a option \<Rightarrow> 'a option \<Rightarrow> bool" where
  "where_eq wanted column = (case wanted of None \<Rightarrow> True | Some v \<Rightarrow> column = Some v)"

definition appointment_create ::
  "env \<Rightarrow> world \<Rightarrow> timestamp option \<Rightarrow> timestamp option \<Rightarrow> AppointmentStatus \<Rightarrow> string
     \<Rightarrow> nat option \<Rightarrow> unit + appointment \<times> world" where
  "appointment_create en w st et s gid pid =
     (if create_throws en then Inl ()
      else case (st, et) of
        (Some t1, Some t2) \<Rightarrow>
          (let row = \<lparr>appointment_id = next_id w, startTime = t1, endTime = t2, status = s,
                      googleEventId = Some gid, patientId = pid, createdAt = db_now en\<rparr>
           in Inr (row, w\<lparr>appointments := appointments w @ [row], next_id := Suc (next_id w)\<rparr>))
      | _ \<Rightarrow> Inl ())"

definition appointment_updateMany ::
  "env \<Rightarrow> world \<Rightarrow> (appointment \<Rightarrow> bool) \<Rightarrow> (appointment \<Rightarrow> appointment) \<Rightarrow> unit + nat \<times> world" where
  "appointment_updateMany en w wh upd =
     (if updateMany_throws en then Inl ()
      else Inr (length (filter wh (appointments w)),
                w\<lparr>appointments := map (\<lambda>r. if wh r then upd r else r) (appointments w)\<rparr>))"

definition appointment_findMany ::
  "env \<Rightarrow> world \<Rightarrow> (appointment \<Rightarrow> bool) \<Rightarrow> unit + appointment list" where
  "appointment_findMany en w wh =
     (if findMany_throws en then Inl ()
      else Inr (sort_key startTime (filter wh (appointments w))))"

definition user_findUnique :: "env \<Rightarrow> world \<Rightarrow> nat \<Rightarrow> unit + user option" where
  "user_findUnique en w uid =
     (if findUnique_throws en then Inl ()
      else Inr (find (\<lambda>u. user_id u = uid) (users w)))"

section \<open>\<open>authMiddleware.js\<close>\<close>

text \<open>
  The middleware answers 401 itself (\<open>Inl\<close>) or calls \<open>next()\<close> with the request
  (\<open>Inr\<close>). On success it assigns \<open>req.user\<close>; it never assigns \<open>req.userId\<close>.
\<close>

definition authMiddleware :: "env \<Rightarrow> world \<Rightarrow> req \<Rightarrow> response + req" where
  "authMiddleware en w rq =
     (case authorization rq of
        None \<Rightarrow> Inl \<lparr>code = 401, body = Message ''No token provided''\<rparr>
      | Some authHeader \<Rightarrow>
          if authHeader = [] then Inl \<lparr>code = 401, body = Message ''No token provided''\<rparr>
          else
            (let token = (if prefix ''Bearer '' authHeader then drop 7 authHeader
                          else authHeader)
             in case jwt_verify en token of
                  None \<Rightarrow> Inl \<lparr>code = 401, body = Message ''Invalid token''\<rparr>
                | Some decoded_id \<Rightarrow>
                    (case user_findUnique en w decoded_id of
                       Inl _ \<Rightarrow> Inl \<lparr>code = 401, body = Message ''Invalid token''\<rparr>
                     | Inr None \<Rightarrow> Inl \<lparr>code = 401, body = Message ''User not found''\<rparr>
                     | Inr (Some u) \<Rightarrow> Inr (rq\<lparr>req_user := Some u\<rparr>))))"

section \<open>The routes of \<open>appointmentRoutes.js\<close>\<close>

text \<open>\<open>GET /redirect\<close>: the authorization handshake; the only writer of \<open>tokensSet\<close>.\<close>

definition redirect :: "env \<Rightarrow> string option \<Rightarrow> world \<Rightarrow> response \<times> world" where
  "redirect en qcode w =
     (if qcode = None \<or> qcode = Some [] then (send 400 ''No ?code provided from Google'', w)
      else if getToken_throws en then (send 500 ''Failed to authorize Google Calendar.'', w)
      else (\<lparr>code = 302, body = Redirect ''/''\<rparr>, w\<lparr>tokensSet := True\<rparr>))"

text \<open>\<open>GET /available\<close>.\<close>

definition get_available :: "env \<Rightarrow> world \<Rightarrow> response \<times> world" where
  "get_available en w =
     (if \<not> tokensSet w then (send 400 ''Google calendar is not authorized yet.'', w)
      else case events_list en w (now en) (oneMonthFromNow en) of
        Inl _ \<Rightarrow> (send 500 ''Failed to fetch available slots.'', w)
      | Inr items \<Rightarrow>
          (let events = (case items of None \<Rightarrow> [] | Some xs \<Rightarrow> xs);
               available = filter available_label events
           in (json (EventList available), w)))"

text \<open>
  \<open>POST /book/:eventId\<close>, with \<open>eventId = req.params.eventId\<close> and \<open>userId = req.userId\<close>,
  which may be \<open>undefined\<close> (\<open>None\<close>).
  Reading \<open>event.start.dateTime\<close> when \<open>event.start\<close> is absent throws, after the
  calendar update.
\<close>

definition book :: "env \<Rightarrow> string \<Rightarrow> nat option \<Rightarrow> world \<Rightarrow> response \<times> world" where
  "book en eventId userId w =
     (if \<not> tokensSet w then (send 400 ''Google calendar is not authorized yet.'', w)
      else case events_get en w eventId of
        Inl _ \<Rightarrow> (send 500 ''Failed to book appointment.'', w)
      | Inr None \<Rightarrow> (send 404 ''Event not found in calendar.'', w)
      | Inr (Some ev) \<Rightarrow>
          if \<not> str_includes (toUpperCase (js_or_str (summary ev) [])) ''AVAILABLE''
          then (send 400 ''This slot is not available anymore.'', w)
          else
            (let updatedEvent = ev\<lparr>summary := Some ''BOOKED''\<rparr> in
             case events_update en w eventId updatedEvent of
               Inl _ \<Rightarrow> (send 500 ''Failed to book appointment.'', w)
             | Inr w1 \<Rightarrow>
                 (case (start ev, end' ev) of
                    (Some sb, Some eb) \<Rightarrow>
                      (let startIso = js_or (dateTime sb) (date sb);
                           endIso = js_or (dateTime eb) (date eb)
                       in case appointment_create en w1 (new_Date en startIso) (new_Date en endIso)
                                 BOOKED eventId userId of
                            Inl _ \<Rightarrow> (send 500 ''Failed to book appointment.'', w1)
                          | Inr (row, w2) \<Rightarrow> (json (AppointmentRow row), w2))
                  | _ \<Rightarrow> (send 500 ''Failed to book appointment.'', w1))))"

text \<open>\<open>POST /cancel/:eventId\<close>.\<close>

definition cancel :: "env \<Rightarrow> string \<Rightarrow> nat option \<Rightarrow> world \<Rightarrow> response \<times> world" where
  "cancel en eventId userId w =
     (if \<not> tokensSet w then (send 400 ''Google calendar is not authorized yet.'', w)
      else case events_get en w eventId of
        Inl _ \<Rightarrow> (send 500 ''Failed to cancel appointment.'', w)
      | Inr None \<Rightarrow> (send 404 ''Event not found in calendar.'', w)
      | Inr (Some ev) \<Rightarrow>
          (let updatedEvent = ev\<lparr>summary := Some ''AVAILABLE''\<rparr> in
           case events_update en w eventId updatedEvent of
             Inl _ \<Rightarrow> (send 500 ''Failed to cancel appointment.'', w)
           | Inr w1 \<Rightarrow>
               (case appointment_updateMany en w1
                       (\<lambda>r. googleEventId r = Some eventId \<and> where_eq userId (patientId r)
                             \<and> status r = BOOKED)
                       (\<lambda>r. r\<lparr>status := CANCELLED\<rparr>) of
                  Inl _ \<Rightarrow> (send 500 ''Failed to cancel appointment.'', w1)
                | Inr (n, w2) \<Rightarrow> (json (Message ''Appointment cancelled.''), w2))))"

text \<open>\<open>GET /mine\<close>: no test of \<open>tokensSet\<close>.\<close>

definition mine :: "env \<Rightarrow> nat option \<Rightarrow> world \<Rightarrow> response \<times> world" where
  "mine en userId w =
     (case appointment_findMany en w (\<lambda>r. where_eq userId (patientId r) \<and> status r = BOOKED) of
        Inl _ \<Rightarrow> (\<lparr>code = 500, body = Message ''Failed to load appointments''\<rparr>, w)
      | Inr rows \<Rightarrow> (json (AppointmentRows rows), w))"

text \<open>
  The protected routes as the router mounts them: \<open>authMiddleware\<close> first, then the
  handler, which reads \<open>req.userId\<close> from the request the middleware passed on.
\<close>

definition route_available :: "env \<Rightarrow> req \<Rightarrow> world \<Rightarrow> response \<times> world" where
  "route_available en rq w =
     (case authMiddleware en w rq of
        Inl res \<Rightarrow> (res, w)
      | Inr rq' \<Rightarrow> get_available en w)"

definition route_book :: "env \<Rightarrow> req \<Rightarrow> string \<Rightarrow> world \<Rightarrow> response \<times> world" where
  "route_book en rq eventId w =
     (case authMiddleware en w rq of
        Inl res \<Rightarrow> (res, w)
      | Inr rq' \<Rightarrow> book en eventId (req_userId rq') w)"

definition route_cancel :: "env \<Rightarrow> req \<Rightarrow> string \<Rightarrow> world \<Rightarrow> response \<times> world" where
  "route_cancel en rq eventId w =
     (case authMiddleware en w rq of
        Inl res \<Rightarrow> (res, w)
      | Inr rq' \<Rightarrow> cancel en eventId (req_userId rq') w)"

definition route_mine :: "env \<Rightarrow> req \<Rightarrow> world \<Rightarrow> response \<times> world" where
  "route_mine en rq w =
     (case authMiddleware en w rq of
        Inl res \<Rightarrow> (res, w)
      | Inr rq' \<Rightarrow> mine en (req_userId rq') w)"

section \<open>Requests in sequence\<close>

datatype request =
    Authorize "string option"
  | Available
  | Book string "nat option"
  | Cancel string "nat option"
  | Mine "nat option"

fun handle :: "env \<Rightarrow> request \<Rightarrow> world \<Rightarrow> response \<times> world" where
  "handle en (Authorize qcode) w = redirect en qcode w"
| "handle en Available w = get_available en w"
| "handle en (Book eventId userId) w = book en eventId userId w"
| "handle en (Cancel eventId userId) w = cancel en eventId userId w"
| "handle en (Mine userId) w = mine en userId w"

text \<open>Requests are served one after the other, each in the environment it finds.\<close>

fun run :: "(env \<times> request) list \<Rightarrow> world \<Rightarrow> world" where
  "run [] w = w"
| "run ((en, rq) # rest) w = run rest (snd (handle en rq w))"

text \<open>
  How one ledger row may differ between two states: not at all, or by the single status
  change from BOOKED to CANCELLED. A ledger evolves when every old row is still at its
  position and differs at most in that way; rows may have been appended.
\<close>

definition row_step :: "appointment \<Rightarrow> appointment \<Rightarrow> bool" where
  "row_step r r' = (r' = r \<or> (status r = BOOKED \<and> r' = r\<lparr>status := CANCELLED\<rparr>))"

definition ledger_step :: "appointment list \<Rightarrow> appointment list \<Rightarrow> bool" where
  "ledger_step old new =
     (length old \<le> length new \<and> list_all2 row_step old (take (length old) new))"

section \<open>The words of the specification\<close>

text \<open>
  A case-insensitive match, said without the program's functions: two characters are the
  same letter when they are equal or are the small and the capital form of one letter, and
  two strings match when they have the same length and the same letters throughout.
\<close>

definition same_letter :: "char \<Rightarrow> char \<Rightarrow> bool" where
  "same_letter c d =
     (c = d
      \<or> (c, d) \<in> set (zip ''abcdefghijklmnopqrstuvwxyz'' ''ABCDEFGHIJKLMNOPQRSTUVWXYZ'')
      \<or> (d, c) \<in> set (zip ''abcdefghijklmnopqrstuvwxyz'' ''ABCDEFGHIJKLMNOPQRSTUVWXYZ''))"

definition same_letters :: "string \<Rightarrow> string \<Rightarrow> bool" where
  "same_letters s t = list_all2 same_letter s t"

text \<open>
  The time a boundary denotes: that of its date-time when it carries a non-empty one,
  otherwise that of its date.
\<close>

definition boundary_time :: "env \<Rightarrow> boundary \<Rightarrow> timestamp option" where
  "boundary_time en b =
     (case dateTime b of
        Some (c # cs) \<Rightarrow> Date_parse en (c # cs)
      | _ \<Rightarrow> (case date b of None \<Rightarrow> None | Some d \<Rightarrow> Date_parse en d))"

section \<open>A sample calendar\<close>

definition sample_parse :: "string \<Rightarrow> timestamp option" where
  "sample_parse = map_of
     [(''2025-12-03T10:00:00Z'', 1764756000000), (''2025-12-03T11:00:00Z'', 1764759600000),
      (''2025-12-10T09:00:00Z'', 1765357200000), (''2025-12-10T09:30:00Z'', 1765359000000),
      (''2025-12-11'', 1765411200000), (''2025-12-12'', 1765497600000),
      (''2025-12-15T14:00:00Z'', 1765807200000), (''2025-12-15T15:00:00Z'', 1765810800000),
      (''2026-02-01T10:00:00Z'', 1769940000000), (''2026-02-01T11:00:00Z'', 1769943600000)]"

definition sample_verify :: "string \<Rightarrow> nat option" where
  "sample_verify = map_of [(''token-7'', 7), (''token-8'', 8), (''token-9'', 9)]"

definition sample_env :: env where
  "sample_env =
     \<lparr>getToken_throws = False, list_throws = False, get_throws = False, update_throws = False,
      create_throws = False, updateMany_throws = False, findMany_throws = False,
      findUnique_throws = False,
      Date_parse = sample_parse, jwt_verify = sample_verify,
      now = 1764547200000, oneMonthFromNow = 1767225600000, db_now = 1764547200123\<rparr>"

definition timed :: "string \<Rightarrow> boundary option" where
  "timed s = Some \<lparr>dateTime = Some s, date = None\<rparr>"

definition all_day :: "string \<Rightarrow> boundary option" where
  "all_day s = Some \<lparr>dateTime = None, date = Some s\<rparr>"

definition slot_a :: event where
  "slot_a = \<lparr>summary = Some ''Available'', start = timed ''2025-12-10T09:00:00Z'',
             end' = timed ''2025-12-10T09:30:00Z'',
             others = [(''id'', ''slot-a''), (''location'', ''Room 2'')]\<rparr>"

definition slot_b :: event where
  "slot_b = \<lparr>summary = Some ''BOOKED'', start = all_day ''2025-12-11'',
             end' = all_day ''2025-12-12'', others = [(''id'', ''slot-b'')]\<rparr>"

definition slot_c :: event where
  "slot_c = \<lparr>summary = Some ''UNAVAILABLE'', start = timed ''2025-12-03T10:00:00Z'',
             end' = timed ''2025-12-03T11:00:00Z'', others = [(''id'', ''slot-c'')]\<rparr>"

definition slot_d :: event where
  "slot_d = \<lparr>summary = Some ''not available'', start = timed ''2025-12-15T14:00:00Z'',
             end' = timed ''2025-12-15T15:00:00Z'', others = [(''id'', ''slot-d'')]\<rparr>"

definition slot_e :: event where
  "slot_e = \<lparr>summary = Some ''AVAILABLE'', start = timed ''2026-02-01T10:00:00Z'',
             end' = timed ''2026-02-01T11:00:00Z'', others = [(''id'', ''slot-e'')]\<rparr>"

definition sample_row :: appointment where
  "sample_row = \<lparr>appointment_id = 1, startTime = 1765411200000, endTime = 1765497600000,
                 status = BOOKED, googleEventId = Some ''slot-b'', patientId = Some 7,
                 createdAt = 1764000000000\<rparr>"

definition patient :: "nat \<Rightarrow> user" where
  "patient n = \<lparr>user_id = n, fullName = None, role = PATIENT\<rparr>"

definition sample_world :: world where
  "sample_world =
     \<lparr>tokensSet = True,
      calendar = [(''slot-e'', slot_e), (''slot-d'', slot_d), (''slot-a'', slot_a),
                  (''slot-b'', slot_b), (''slot-c'', slot_c)],
      appointments = [sample_row], next_id = 2,
      users = [patient 7, patient 8, patient 9]\<rparr>"

lemmas sample_defs =
  sample_world_def sample_env_def sample_parse_def sample_verify_def sample_row_def
  slot_a_def slot_b_def slot_c_def slot_d_def slot_e_def timed_def all_day_def patient_def

section \<open>Facts about strings and stores\<close>

lemma str_includes_sublist: "str_includes s t = sublist t s"
  by (induction s) (auto simp: sublist_Cons_right)

lemma str_includes_map_iff:
  "str_includes (map f s) t \<longleftrightarrow> (\<exists>pre mid post. s = pre @ mid @ post \<and> map f mid = t)"
proof
  assume "str_includes (map f s) t"
  then obtain ps ss where "map f s = ps @ t @ ss"
    by (auto simp: str_includes_sublist sublist_def)
  then have "\<exists>pre r. s = pre @ r \<and> map f r = t @ ss"
    by (metis map_eq_append_conv)
  then obtain pre r where s: "s = pre @ r" and r: "map f r = t @ ss"
    by blast
  from r have "\<exists>mid post. r = mid @ post \<and> map f mid = t"
    by (metis map_eq_append_conv)
  then obtain mid post where "r = mid @ post" and "map f mid = t"
    by blast
  with s show "\<exists>pre mid post. s = pre @ mid @ post \<and> map f mid = t"
    by blast
next
  assume "\<exists>pre mid post. s = pre @ mid @ post \<and> map f mid = t"
  then obtain pre mid post where "s = pre @ mid @ post" and "map f mid = t"
    by blast
  then have "map f s = map f pre @ t @ map f post"
    by simp
  then show "str_includes (map f s) t"
    unfolding str_includes_sublist sublist_def by blast
qed

text \<open>
  The availability test passes exactly when some contiguous part of the label upper-cases
  to the token.
\<close>

lemma available_label_iff:
  "available_label ev \<longleftrightarrow>
     (\<exists>pre mid post. js_or_str (summary ev) [] = pre @ mid @ post
        \<and> toUpperCase mid = ''AVAILABLE'')"
  unfolding available_label_def toUpperCase_def by (rule str_includes_map_iff)

lemma js_or_str_Some [simp]: "js_or_str (Some s) [] = s"
  by (simp add: js_or_str_def)

text \<open>Upper-casing sends a character to the capital letter it is the same letter as.\<close>

lemma same_letter_cases:
  "same_letter c (CHR ''A'') \<longleftrightarrow> c = CHR ''A'' \<or> c = CHR ''a''"
  "same_letter c (CHR ''V'') \<longleftrightarrow> c = CHR ''V'' \<or> c = CHR ''v''"
  "same_letter c (CHR ''I'') \<longleftrightarrow> c = CHR ''I'' \<or> c = CHR ''i''"
  "same_letter c (CHR ''L'') \<longleftrightarrow> c = CHR ''L'' \<or> c = CHR ''l''"
  "same_letter c (CHR ''B'') \<longleftrightarrow> c = CHR ''B'' \<or> c = CHR ''b''"
  "same_letter c (CHR ''E'') \<longleftrightarrow> c = CHR ''E'' \<or> c = CHR ''e''"
  by (simp_all add: same_letter_def)

lemma upper_char_values:
  "upper_char (CHR ''A'') = CHR ''A''" "upper_char (CHR ''a'') = CHR ''A''"
  "upper_char (CHR ''V'') = CHR ''V''" "upper_char (CHR ''v'') = CHR ''V''"
  "upper_char (CHR ''I'') = CHR ''I''" "upper_char (CHR ''i'') = CHR ''I''"
  "upper_char (CHR ''L'') = CHR ''L''" "upper_char (CHR ''l'') = CHR ''L''"
  "upper_char (CHR ''B'') = CHR ''B''" "upper_char (CHR ''b'') = CHR ''B''"
  "upper_char (CHR ''E'') = CHR ''E''" "upper_char (CHR ''e'') = CHR ''E''"
  by (simp_all add: upper_char_def)

lemma same_letter_upper:
  assumes "same_letter c d" and "d \<in> set ''AVILBE''"
  shows "upper_char c = d"
proof -
  from assms(2) have "d = CHR ''A'' \<or> d = CHR ''V'' \<or> d = CHR ''I'' \<or> d = CHR ''L''
      \<or> d = CHR ''B'' \<or> d = CHR ''E''"
    by simp
  with assms(1) show ?thesis
    by (auto simp: same_letter_cases upper_char_values)
qed

lemma same_letters_upper:
  assumes "same_letters s t" and "set t \<subseteq> set ''AVILBE''"
  shows "toUpperCase s = t"
  using assms unfolding same_letters_def toUpperCase_def
proof (induction s t rule: list_all2_induct)
  case Nil
  show ?case by simp
next
  case (Cons c s d t)
  from Cons.prems have "d \<in> set ''AVILBE''" and "set t \<subseteq> set ''AVILBE''"
    by simp_all
  with Cons.hyps(1) Cons.IH show ?case
    by (simp add: same_letter_upper)
qed

text \<open>What \<open>new Date(b.dateTime || b.date)\<close> gives for a boundary.\<close>

lemma new_Date_js_or:
  "new_Date en (js_or (dateTime b) (date b)) = boundary_time en b"
  by (cases "dateTime b"; cases "date b")
     (auto simp: new_Date_def js_or_def boundary_time_def split: list.splits)

lemma map_of_update_other:
  "k' \<noteq> k \<Longrightarrow> map_of (AList.update k v al) k' = map_of al k'"
  by (simp add: update_conv')

lemma map_of_update_same: "map_of (AList.update k v al) k = Some v"
  by (simp add: update_conv')

section \<open>What the middleware passes on\<close>

lemma middleware_keeps_userId:
  assumes "authMiddleware en w rq = Inr rq'"
  shows "req_userId rq' = req_userId rq"
  using assms
  by (auto simp: authMiddleware_def Let_def split: option.splits if_splits sum.splits)

text \<open>
  Behind the middleware every handler runs with \<open>req.userId\<close> undefined, whoever the
  authenticated user is.
\<close>

lemma routes_run_without_userId:
  assumes "authMiddleware en w (incoming header) = Inr rq'"
  shows "route_book en (incoming header) eventId w = book en eventId None w"
    and "route_cancel en (incoming header) eventId w = cancel en eventId None w"
    and "route_mine en (incoming header) w = mine en None w"
proof -
  have "req_userId rq' = None"
    using middleware_keeps_userId [OF assms] by (simp add: incoming_def)
  with assms show "route_book en (incoming header) eventId w = book en eventId None w"
    and "route_cancel en (incoming header) eventId w = cancel en eventId None w"
    and "route_mine en (incoming header) w = mine en None w"
    by (simp_all add: route_book_def route_cancel_def route_mine_def)
qed

lemma sample_middleware:
  "authMiddleware sample_env sample_world (incoming (Some ''Bearer token-7''))
     = Inr \<lparr>authorization = Some ''Bearer token-7'', req_user = Some (patient 7),
            req_userId = None\<rparr>"
  "authMiddleware sample_env sample_world (incoming (Some ''Bearer token-8''))
     = Inr \<lparr>authorization = Some ''Bearer token-8'', req_user = Some (patient 8),
            req_userId = None\<rparr>"
  "authMiddleware sample_env sample_world (incoming (Some ''Bearer token-9''))
     = Inr \<lparr>authorization = Some ''Bearer token-9'', req_user = Some (patient 9),
            req_userId = None\<rparr>"
  by (simp_all add: authMiddleware_def user_findUnique_def incoming_def Let_def sample_defs)

section \<open>Booking a slot that is not available\<close>

text \<open>
  C2. When the handshake is done and the calendar returns the slot, a label that does not
  contain AVAILABLE (after upper-casing) makes \<open>book\<close> answer 400 "This slot is not
  available anymore." and leaves the whole state, calendar and ledger, as it was.
\<close>

theorem book_not_available_conflict:
  assumes "tokensSet w"
    and "\<not> get_throws en"
    and "map_of (calendar w) eventId = Some ev"
    and "\<not> str_includes (toUpperCase (js_or_str (summary ev) [])) ''AVAILABLE''"
  shows "book en eventId userId w = (send 400 ''This slot is not available anymore.'', w)"
  using assms by (simp add: book_def events_get_def)

theorem book_not_available_conflict_witness:
  "tokensSet sample_world \<and> \<not> get_throws sample_env
   \<and> map_of (calendar sample_world) ''slot-b'' = Some slot_b
   \<and> \<not> str_includes (toUpperCase (js_or_str (summary slot_b) [])) ''AVAILABLE''
   \<and> book sample_env ''slot-b'' None sample_world
       = (send 400 ''This slot is not available anymore.'', sample_world)"
proof -
  have h1: "tokensSet sample_world" by (simp add: sample_defs)
  have h2: "\<not> get_throws sample_env" by (simp add: sample_defs)
  have h3: "map_of (calendar sample_world) ''slot-b'' = Some slot_b" by (simp add: sample_defs)
  have h4: "\<not> str_includes (toUpperCase (js_or_str (summary slot_b) [])) ''AVAILABLE''"
    by (simp add: slot_b_def toUpperCase_def upper_char_def)
  show ?thesis
    using h1 h2 h3 h4 book_not_available_conflict [OF h1 h2 h3 h4, of None] by simp
qed

section \<open>Booking an available slot\<close>

text \<open>
  What the handler does with an available slot, for any value of \<open>req.userId\<close>: the row
  carries that value as its patient reference, and each time is that of the boundary's
  date-time, or of its date when it has no date-time.
\<close>

lemma book_success:
  assumes "tokensSet w" and "\<not> get_throws en" and "\<not> update_throws en"
    and "\<not> create_throws en"
    and "map_of (calendar w) eventId = Some ev"
    and "str_includes (toUpperCase (js_or_str (summary ev) [])) ''AVAILABLE''"
    and "start ev = Some sb" and "end' ev = Some eb"
    and "boundary_time en sb = Some t1"
    and "boundary_time en eb = Some t2"
  shows "book en eventId userId w =
     (json (AppointmentRow
        \<lparr>appointment_id = next_id w, startTime = t1, endTime = t2, status = BOOKED,
         googleEventId = Some eventId, patientId = userId, createdAt = db_now en\<rparr>),
      w\<lparr>calendar := AList.update eventId (ev\<lparr>summary := Some ''BOOKED''\<rparr>) (calendar w),
        appointments := appointments w @
          [\<lparr>appointment_id = next_id w, startTime = t1, endTime = t2, status = BOOKED,
            googleEventId = Some eventId, patientId = userId, createdAt = db_now en\<rparr>],
        next_id := Suc (next_id w)\<rparr>)"
  using assms
  by (simp add: book_def events_get_def events_update_def appointment_create_def Let_def
      new_Date_js_or)

text \<open>An all-day slot: both boundaries carry only \<open>date\<close>.\<close>

lemma book_all_day_example:
  "book sample_env ''slot-b'' None
     (sample_world\<lparr>calendar := [(''slot-b'', slot_b\<lparr>summary := Some ''available''\<rparr>)]\<rparr>)
   = (json (AppointmentRow
        \<lparr>appointment_id = 2, startTime = 1765411200000, endTime = 1765497600000,
         status = BOOKED, googleEventId = Some ''slot-b'', patientId = None,
         createdAt = 1764547200123\<rparr>),
      sample_world\<lparr>calendar := [(''slot-b'', slot_b\<lparr>summary := Some ''BOOKED''\<rparr>)],
        appointments := [sample_row,
          \<lparr>appointment_id = 2, startTime = 1765411200000, endTime = 1765497600000,
           status = BOOKED, googleEventId = Some ''slot-b'', patientId = None,
           createdAt = 1764547200123\<rparr>],
        next_id := 3\<rparr>)"
  by (simp add: book_def events_get_def events_update_def appointment_create_def Let_def
      new_Date_def js_or_def js_or_str_def toUpperCase_def upper_char_def sample_defs)

text \<open>
  C1. The route does relabel the slot BOOKED, append exactly one BOOKED row for the event
  id with the slot's times and return it, but the row's patient reference is not the
  caller. Patient 9, authenticated by the middleware, books the available slot
  \<open>slot-a\<close>: the middleware passes the request on with \<open>req.userId\<close> undefined, and the
  created row has no patient reference at all.
\<close>

theorem book_loses_patient_reference:
  "authMiddleware sample_env sample_world (incoming (Some ''Bearer token-9''))
     = Inr \<lparr>authorization = Some ''Bearer token-9'', req_user = Some (patient 9),
            req_userId = None\<rparr>
   \<and> fst (route_book sample_env (incoming (Some ''Bearer token-9'')) ''slot-a'' sample_world)
       = json (AppointmentRow
           \<lparr>appointment_id = 2, startTime = 1765357200000, endTime = 1765359000000,
            status = BOOKED, googleEventId = Some ''slot-a'', patientId = None,
            createdAt = 1764547200123\<rparr>)
   \<and> appointments
        (snd (route_book sample_env (incoming (Some ''Bearer token-9'')) ''slot-a'' sample_world))
       = [sample_row,
          \<lparr>appointment_id = 2, startTime = 1765357200000, endTime = 1765359000000,
           status = BOOKED, googleEventId = Some ''slot-a'', patientId = None,
           createdAt = 1764547200123\<rparr>]
   \<and> map_of (calendar
        (snd (route_book sample_env (incoming (Some ''Bearer token-9'')) ''slot-a'' sample_world)))
        ''slot-a'' = Some (slot_a\<lparr>summary := Some ''BOOKED''\<rparr>)"
proof -
  have h1: "tokensSet sample_world" by (simp add: sample_defs)
  have h2: "\<not> get_throws sample_env" by (simp add: sample_defs)
  have h3: "\<not> update_throws sample_env" by (simp add: sample_defs)
  have h4: "\<not> create_throws sample_env" by (simp add: sample_defs)
  have h5: "map_of (calendar sample_world) ''slot-a'' = Some slot_a" by (simp add: sample_defs)
  have h6: "str_includes (toUpperCase (js_or_str (summary slot_a) [])) ''AVAILABLE''"
    by (simp add: slot_a_def toUpperCase_def upper_char_def)
  have h7: "start slot_a = Some \<lparr>dateTime = Some ''2025-12-10T09:00:00Z'', date = None\<rparr>"
    by (simp add: slot_a_def timed_def)
  have h8: "end' slot_a = Some \<lparr>dateTime = Some ''2025-12-10T09:30:00Z'', date = None\<rparr>"
    by (simp add: slot_a_def timed_def)
  have h9: "boundary_time sample_env \<lparr>dateTime = Some ''2025-12-10T09:00:00Z'', date = None\<rparr>
      = Some 1765357200000"
    by (simp add: boundary_time_def sample_env_def sample_parse_def)
  have h10: "boundary_time sample_env \<lparr>dateTime = Some ''2025-12-10T09:30:00Z'', date = None\<rparr>
      = Some 1765359000000"
    by (simp add: boundary_time_def sample_env_def sample_parse_def)
  have n: "next_id sample_world = 2" "appointments sample_world = [sample_row]"
    "db_now sample_env = 1764547200123"
    by (simp_all add: sample_world_def sample_env_def)
  show ?thesis
    unfolding routes_run_without_userId [OF sample_middleware(3)]
      book_success [OF h1 h2 h3 h4 h5 h6 h7 h8 h9 h10]
    by (simp add: sample_middleware(3) n map_of_update_same)
qed

section \<open>A slot that is absent from the calendar\<close>

text \<open>
  For an id the calendar does not hold, \<open>get\<close> rejects, so the handlers never reach
  their test \<open>if (!event)\<close>: the \<open>catch\<close> branch answers.
\<close>

lemma absent_slot_reaches_catch:
  assumes "tokensSet w" and "map_of (calendar w) eventId = None"
  shows "book en eventId userId w = (send 500 ''Failed to book appointment.'', w)"
    and "cancel en eventId userId w = (send 500 ''Failed to cancel appointment.'', w)"
  using assms by (simp_all add: book_def cancel_def events_get_def)

lemma get_throws_generic_failure:
  assumes "tokensSet w" and "get_throws en"
  shows "book en eventId userId w = (send 500 ''Failed to book appointment.'', w)"
    and "cancel en eventId userId w = (send 500 ''Failed to cancel appointment.'', w)"
  using assms by (simp_all add: book_def cancel_def events_get_def)

text \<open>
  C7. The handshake is done and the calendar is reachable, but it holds no slot
  \<open>no-such-slot\<close>. Patient 9 books it, then cancels it: neither route answers 404 "Event
  not found in calendar."; both answer with the generic failure 500. The state is left
  as it was.
\<close>

theorem absent_slot_generic_failure:
  "tokensSet sample_world \<and> \<not> get_throws sample_env
   \<and> map_of (calendar sample_world) ''no-such-slot'' = None
   \<and> route_book sample_env (incoming (Some ''Bearer token-9'')) ''no-such-slot'' sample_world
        = (send 500 ''Failed to book appointment.'', sample_world)
   \<and> route_cancel sample_env (incoming (Some ''Bearer token-9'')) ''no-such-slot'' sample_world
        = (send 500 ''Failed to cancel appointment.'', sample_world)
   \<and> send 500 ''Failed to book appointment.'' \<noteq> send 404 ''Event not found in calendar.''
   \<and> send 500 ''Failed to cancel appointment.'' \<noteq> send 404 ''Event not found in calendar.''"
proof -
  have h1: "tokensSet sample_world" by (simp add: sample_defs)
  have h2: "\<not> get_throws sample_env" by (simp add: sample_defs)
  have h3: "map_of (calendar sample_world) ''no-such-slot'' = None" by (simp add: sample_defs)
  show ?thesis
    unfolding routes_run_without_userId [OF sample_middleware(3)]
      absent_slot_reaches_catch [OF h1 h3]
    using h1 h2 h3 by (simp add: send_def)
qed

section \<open>The ledger insert fails after the relabel\<close>

text \<open>
  C9. When the slot is fetched, passes the availability test and the calendar update
  succeeds, but the ledger insert throws, \<open>book\<close> answers 500 "Failed to book
  appointment."; the stored slot stays relabelled BOOKED and the ledger is as before.
\<close>

theorem book_insert_failure_orphan:
  assumes "tokensSet w" and "\<not> get_throws en" and "\<not> update_throws en"
    and "create_throws en"
    and "map_of (calendar w) eventId = Some ev"
    and "str_includes (toUpperCase (js_or_str (summary ev) [])) ''AVAILABLE''"
  shows "\<exists>w'. book en eventId userId w = (send 500 ''Failed to book appointment.'', w')
           \<and> map_of (calendar w') eventId = Some (ev\<lparr>summary := Some ''BOOKED''\<rparr>)
           \<and> appointments w' = appointments w"
  using assms
  by (auto simp: book_def events_get_def events_update_def appointment_create_def Let_def
      map_of_update_same split: option.splits)

theorem book_insert_failure_orphan_witness:
  "tokensSet sample_world \<and> create_throws (sample_env\<lparr>create_throws := True\<rparr>)
   \<and> map_of (calendar sample_world) ''slot-a'' = Some slot_a
   \<and> (\<exists>w'. book (sample_env\<lparr>create_throws := True\<rparr>) ''slot-a'' None sample_world
              = (send 500 ''Failed to book appointment.'', w')
         \<and> map_of (calendar w') ''slot-a'' = Some (slot_a\<lparr>summary := Some ''BOOKED''\<rparr>)
         \<and> appointments w' = [sample_row])"
proof -
  let ?en = "sample_env\<lparr>create_throws := True\<rparr>"
  have h1: "tokensSet sample_world" by (simp add: sample_defs)
  have h2: "\<not> get_throws ?en" by (simp add: sample_defs)
  have h3: "\<not> update_throws ?en" by (simp add: sample_defs)
  have h4: "create_throws ?en" by simp
  have h5: "map_of (calendar sample_world) ''slot-a'' = Some slot_a" by (simp add: sample_defs)
  have h6: "str_includes (toUpperCase (js_or_str (summary slot_a) [])) ''AVAILABLE''"
    by (simp add: slot_a_def toUpperCase_def upper_char_def)
  have a: "appointments sample_world = [sample_row]" by (simp add: sample_world_def)
  show ?thesis
    using h1 h4 h5 a book_insert_failure_orphan [OF h1 h2 h3 h4 h5 h6, of None] by simp
qed

section \<open>Cancelling\<close>

text \<open>
  What the handler does for any value of \<open>req.userId\<close>: with a value, the rows of that
  patient are matched; with \<open>undefined\<close>, the patient condition is not part of the filter.
\<close>

lemma cancel_success:
  assumes "tokensSet w" and "\<not> get_throws en" and "\<not> update_throws en"
    and "\<not> updateMany_throws en"
    and "map_of (calendar w) eventId = Some ev"
  shows "cancel en eventId userId w =
     (json (Message ''Appointment cancelled.''),
      w\<lparr>calendar := AList.update eventId (ev\<lparr>summary := Some ''AVAILABLE''\<rparr>) (calendar w),
        appointments :=
          map (\<lambda>r. if googleEventId r = Some eventId \<and> where_eq userId (patientId r)
                        \<and> status r = BOOKED
                    then r\<lparr>status := CANCELLED\<rparr> else r)
              (appointments w)\<rparr>)"
  using assms
  by (simp add: cancel_def events_get_def events_update_def appointment_updateMany_def Let_def)

lemma cancel_without_userId:
  assumes "tokensSet w" and "\<not> get_throws en" and "\<not> update_throws en"
    and "\<not> updateMany_throws en"
    and "map_of (calendar w) eventId = Some ev"
  shows "appointments (snd (cancel en eventId None w)) =
          map (\<lambda>r. if googleEventId r = Some eventId \<and> status r = BOOKED
                    then r\<lparr>status := CANCELLED\<rparr> else r)
              (appointments w)"
  unfolding cancel_success [OF assms] by (simp add: where_eq_def)

text \<open>
  C3. The route does relabel the slot AVAILABLE whatever its label was and does report
  success, but the rows it cancels are not those of the caller only. The ledger holds one
  BOOKED row, of patient 7, for \<open>slot-b\<close>. Patient 8, authenticated by the middleware,
  cancels \<open>slot-b\<close>: the request reaches the handler with \<open>req.userId\<close> undefined, the
  filter has no patient condition, and the row of patient 7 becomes CANCELLED.
\<close>

theorem cancel_hits_other_patients_row:
  "appointments sample_world = [sample_row]
   \<and> patientId sample_row = Some 7 \<and> status sample_row = BOOKED
   \<and> authMiddleware sample_env sample_world (incoming (Some ''Bearer token-8''))
     = Inr \<lparr>authorization = Some ''Bearer token-8'', req_user = Some (patient 8),
            req_userId = None\<rparr>
   \<and> fst (route_cancel sample_env (incoming (Some ''Bearer token-8'')) ''slot-b'' sample_world)
       = json (Message ''Appointment cancelled.'')
   \<and> appointments
        (snd (route_cancel sample_env (incoming (Some ''Bearer token-8'')) ''slot-b'' sample_world))
       = [sample_row\<lparr>status := CANCELLED\<rparr>]"
proof -
  have h1: "tokensSet sample_world" by (simp add: sample_defs)
  have h2: "\<not> get_throws sample_env" by (simp add: sample_defs)
  have h3: "\<not> update_throws sample_env" by (simp add: sample_defs)
  have h4: "\<not> updateMany_throws sample_env" by (simp add: sample_defs)
  have h5: "map_of (calendar sample_world) ''slot-b'' = Some slot_b" by (simp add: sample_defs)
  have a: "appointments sample_world = [sample_row]" by (simp add: sample_world_def)
  have r: "patientId sample_row = Some 7" "status sample_row = BOOKED"
    "googleEventId sample_row = Some ''slot-b''"
    by (simp_all add: sample_row_def)
  show ?thesis
    unfolding routes_run_without_userId [OF sample_middleware(2)]
      cancel_success [OF h1 h2 h3 h4 h5]
    by (simp add: sample_middleware(2) a r where_eq_def)
qed

text \<open>
  The same in a state the routes themselves produce: patient 7 books \<open>slot-a\<close>, patient 8
  cancels it, and the row that the booking created is CANCELLED.
\<close>

lemma cancel_after_booking_example:
  "appointments
     (snd (route_cancel sample_env (incoming (Some ''Bearer token-8'')) ''slot-a''
        (snd (route_book sample_env (incoming (Some ''Bearer token-7'')) ''slot-a''
                sample_world))))
   = [sample_row,
      \<lparr>appointment_id = 2, startTime = 1765357200000, endTime = 1765359000000,
       status = CANCELLED, googleEventId = Some ''slot-a'', patientId = None,
       createdAt = 1764547200123\<rparr>]"
  by (simp add: route_cancel_def route_book_def authMiddleware_def user_findUnique_def
      incoming_def cancel_def book_def events_get_def events_update_def
      appointment_updateMany_def appointment_create_def where_eq_def Let_def new_Date_def
      js_or_def js_or_str_def toUpperCase_def upper_char_def sample_defs)

section \<open>The relabel is a full overwrite that keeps every other field\<close>

text \<open>
  C6. The representation that \<open>book\<close> and \<open>cancel\<close> write to the calendar, which is what
  the calendar then stores for the slot, has the new label and agrees with the fetched
  representation in the boundaries and in every other property: putting the old label
  back gives the fetched representation. Every other slot of the calendar is untouched.
\<close>

theorem relabel_changes_only_summary:
  assumes "tokensSet w" and "\<not> get_throws en" and "\<not> update_throws en"
    and "map_of (calendar w) eventId = Some ev"
  shows "(str_includes (toUpperCase (js_or_str (summary ev) [])) ''AVAILABLE'' \<longrightarrow>
            (\<exists>ev'. map_of (calendar (snd (book en eventId userId w))) eventId = Some ev'
               \<and> summary ev' = Some ''BOOKED''
               \<and> start ev' = start ev \<and> end' ev' = end' ev \<and> others ev' = others ev
               \<and> ev'\<lparr>summary := summary ev\<rparr> = ev)
            \<and> (\<forall>k. k \<noteq> eventId \<longrightarrow>
                 map_of (calendar (snd (book en eventId userId w))) k = map_of (calendar w) k))
       \<and> (\<exists>ev'. map_of (calendar (snd (cancel en eventId userId w))) eventId = Some ev'
               \<and> summary ev' = Some ''AVAILABLE''
               \<and> start ev' = start ev \<and> end' ev' = end' ev \<and> others ev' = others ev
               \<and> ev'\<lparr>summary := summary ev\<rparr> = ev)
       \<and> (\<forall>k. k \<noteq> eventId \<longrightarrow>
             map_of (calendar (snd (cancel en eventId userId w))) k = map_of (calendar w) k)"
proof -
  have b: "str_includes (toUpperCase (js_or_str (summary ev) [])) ''AVAILABLE'' \<Longrightarrow>
      calendar (snd (book en eventId userId w))
        = AList.update eventId (ev\<lparr>summary := Some ''BOOKED''\<rparr>) (calendar w)"
    using assms
    by (auto simp: book_def events_get_def events_update_def appointment_create_def Let_def
        split: option.splits)
  have c: "calendar (snd (cancel en eventId userId w))
        = AList.update eventId (ev\<lparr>summary := Some ''AVAILABLE''\<rparr>) (calendar w)"
    using assms
    by (auto simp: cancel_def events_get_def events_update_def appointment_updateMany_def Let_def)
  show ?thesis
    using b by (simp add: c map_of_update_same map_of_update_other)
qed

theorem relabel_changes_only_summary_witness:
  "tokensSet sample_world \<and> map_of (calendar sample_world) ''slot-a'' = Some slot_a
   \<and> str_includes (toUpperCase (js_or_str (summary slot_a) [])) ''AVAILABLE''
   \<and> map_of (calendar (snd (book sample_env ''slot-a'' None sample_world))) ''slot-a''
       = Some \<lparr>summary = Some ''BOOKED'', start = timed ''2025-12-10T09:00:00Z'',
               end' = timed ''2025-12-10T09:30:00Z'',
               others = [(''id'', ''slot-a''), (''location'', ''Room 2'')]\<rparr>
   \<and> map_of (calendar (snd (cancel sample_env ''slot-a'' None sample_world))) ''slot-a''
       = Some \<lparr>summary = Some ''AVAILABLE'', start = timed ''2025-12-10T09:00:00Z'',
               end' = timed ''2025-12-10T09:30:00Z'',
               others = [(''id'', ''slot-a''), (''location'', ''Room 2'')]\<rparr>
   \<and> map_of (calendar (snd (book sample_env ''slot-a'' None sample_world))) ''slot-b''
       = Some slot_b"
proof -
  have h1: "tokensSet sample_world" by (simp add: sample_defs)
  have h2: "\<not> get_throws sample_env" by (simp add: sample_defs)
  have h3: "\<not> update_throws sample_env" by (simp add: sample_defs)
  have h4: "map_of (calendar sample_world) ''slot-a'' = Some slot_a" by (simp add: sample_defs)
  have h5: "str_includes (toUpperCase (js_or_str (summary slot_a) [])) ''AVAILABLE''"
    by (simp add: slot_a_def toUpperCase_def upper_char_def)
  have h6: "map_of (calendar sample_world) ''slot-b'' = Some slot_b" by (simp add: sample_defs)
  have eq: "\<And>ev' l. summary ev' = Some l \<Longrightarrow> start ev' = start slot_a
      \<Longrightarrow> end' ev' = end' slot_a \<Longrightarrow> others ev' = others slot_a
      \<Longrightarrow> ev' = \<lparr>summary = Some l, start = timed ''2025-12-10T09:00:00Z'',
               end' = timed ''2025-12-10T09:30:00Z'',
               others = [(''id'', ''slot-a''), (''location'', ''Room 2'')]\<rparr>"
    by (simp add: slot_a_def)
  note t = relabel_changes_only_summary [OF h1 h2 h3 h4, of None]
  from t h5 obtain e1 where
    "map_of (calendar (snd (book sample_env ''slot-a'' None sample_world))) ''slot-a'' = Some e1"
    "summary e1 = Some ''BOOKED''" "start e1 = start slot_a" "end' e1 = end' slot_a"
    "others e1 = others slot_a"
    by blast
  then have b: "map_of (calendar (snd (book sample_env ''slot-a'' None sample_world))) ''slot-a''
       = Some \<lparr>summary = Some ''BOOKED'', start = timed ''2025-12-10T09:00:00Z'',
               end' = timed ''2025-12-10T09:30:00Z'',
               others = [(''id'', ''slot-a''), (''location'', ''Room 2'')]\<rparr>"
    using eq by simp
  from t obtain e2 where
    "map_of (calendar (snd (cancel sample_env ''slot-a'' None sample_world))) ''slot-a'' = Some e2"
    "summary e2 = Some ''AVAILABLE''" "start e2 = start slot_a" "end' e2 = end' slot_a"
    "others e2 = others slot_a"
    by blast
  then have c: "map_of (calendar (snd (cancel sample_env ''slot-a'' None sample_world))) ''slot-a''
       = Some \<lparr>summary = Some ''AVAILABLE'', start = timed ''2025-12-10T09:00:00Z'',
               end' = timed ''2025-12-10T09:30:00Z'',
               others = [(''id'', ''slot-a''), (''location'', ''Room 2'')]\<rparr>"
    using eq by simp
  from t h5 have "map_of (calendar (snd (book sample_env ''slot-a'' None sample_world))) ''slot-b''
      = map_of (calendar sample_world) ''slot-b''"
    by simp
  with h6 have o: "map_of (calendar (snd (book sample_env ''slot-a'' None sample_world))) ''slot-b''
      = Some slot_b"
    by simp
  from h1 h4 h5 b c o show ?thesis by blast
qed

section \<open>Requests before the authorization handshake\<close>

text \<open>
  C8, as the claim states it, fails for \<open>GET /mine\<close>: with \<open>tokensSet\<close> false the route
  still reads the ledger and answers 200 with rows of the ledger.
\<close>

theorem mine_ignores_handshake_counterexample:
  "\<not> tokensSet (sample_world\<lparr>tokensSet := False\<rparr>)
   \<and> route_mine sample_env (incoming (Some ''Bearer token-7''))
         (sample_world\<lparr>tokensSet := False\<rparr>)
       = (json (AppointmentRows [sample_row]), sample_world\<lparr>tokensSet := False\<rparr>)
   \<and> fst (route_mine sample_env (incoming (Some ''Bearer token-7''))
         (sample_world\<lparr>tokensSet := False\<rparr>))
       \<noteq> send 400 ''Google calendar is not authorized yet.''"
  by (simp add: route_mine_def authMiddleware_def user_findUnique_def incoming_def Let_def
      mine_def appointment_findMany_def where_eq_def json_def send_def sample_defs)

text \<open>
  C8, amended. While the handshake has not completed, \<open>GET /available\<close>, \<open>POST /book\<close>
  and \<open>POST /cancel\<close> answer 400 "Google calendar is not authorized yet." and leave the
  state as it was, whatever the backing services would have done (the environment is
  arbitrary, so neither service is consulted). \<open>GET /mine\<close> does not look at the
  handshake: it never gives that answer, and it too leaves the state as it was.
\<close>

theorem unauthorized_requests:
  assumes "\<not> tokensSet w"
  shows "get_available en w = (send 400 ''Google calendar is not authorized yet.'', w)
       \<and> book en eventId userId w = (send 400 ''Google calendar is not authorized yet.'', w)
       \<and> cancel en eventId userId w = (send 400 ''Google calendar is not authorized yet.'', w)
       \<and> snd (mine en userId w) = w
       \<and> fst (mine en userId w) \<noteq> send 400 ''Google calendar is not authorized yet.''"
  using assms
  by (simp add: get_available_def book_def cancel_def mine_def appointment_findMany_def
      json_def send_def)

theorem unauthorized_requests_witness:
  "\<not> tokensSet (sample_world\<lparr>tokensSet := False\<rparr>)
   \<and> get_available sample_env (sample_world\<lparr>tokensSet := False\<rparr>)
       = (send 400 ''Google calendar is not authorized yet.'', sample_world\<lparr>tokensSet := False\<rparr>)
   \<and> book sample_env ''slot-a'' None (sample_world\<lparr>tokensSet := False\<rparr>)
       = (send 400 ''Google calendar is not authorized yet.'', sample_world\<lparr>tokensSet := False\<rparr>)
   \<and> cancel sample_env ''slot-a'' None (sample_world\<lparr>tokensSet := False\<rparr>)
       = (send 400 ''Google calendar is not authorized yet.'', sample_world\<lparr>tokensSet := False\<rparr>)
   \<and> snd (mine sample_env None (sample_world\<lparr>tokensSet := False\<rparr>))
       = sample_world\<lparr>tokensSet := False\<rparr>
   \<and> fst (mine sample_env None (sample_world\<lparr>tokensSet := False\<rparr>))
       \<noteq> send 400 ''Google calendar is not authorized yet.''"
proof -
  have h: "\<not> tokensSet (sample_world\<lparr>tokensSet := False\<rparr>)" by simp
  show ?thesis
    using h unauthorized_requests [OF h, of sample_env "''slot-a''" None]
    by simp
qed

section \<open>Listing the available slots\<close>

lemma get_available_result:
  assumes "tokensSet w" and "\<not> list_throws en"
  shows "get_available en w =
     (json (EventList
        (filter available_label
           (sort_key (start_key en)
              (filter (overlaps en (now en) (oneMonthFromNow en)) (map snd (calendar w)))))),
      w)"
  using assms by (simp add: get_available_def events_list_def)

lemma sorted_map_filter: "sorted (map f xs) \<Longrightarrow> sorted (map f (filter P xs))"
  by (induction xs) auto

text \<open>
  C10. A label in which the token occurs inside a longer word, in any mix of small and
  capital letters (any \<open>pre @ mid @ post\<close> whose middle part has the letters of AVAILABLE,
  such as UNAVAILABLE or "not available"), passes the availability test: the slot is in
  the result of the listing when it lies in the window, and \<open>book\<close> accepts it, relabels
  it BOOKED and returns the created row.
\<close>

theorem token_inside_longer_word_counts_as_available:
  assumes "same_letters mid ''AVAILABLE''"
    and "summary ev = Some (pre @ mid @ post)"
    and "tokensSet w" and "\<not> list_throws en" and "\<not> get_throws en"
    and "\<not> update_throws en" and "\<not> create_throws en"
    and "map_of (calendar w) eventId = Some ev"
    and "overlaps en (now en) (oneMonthFromNow en) ev"
    and "start ev = Some sb" and "end' ev = Some eb"
    and "boundary_time en sb = Some t1"
    and "boundary_time en eb = Some t2"
  shows "(\<exists>evs. get_available en w = (json (EventList evs), w) \<and> ev \<in> set evs)
       \<and> (\<exists>row w'. book en eventId userId w = (json (AppointmentRow row), w')
             \<and> googleEventId row = Some eventId \<and> status row = BOOKED
             \<and> map_of (calendar w') eventId = Some (ev\<lparr>summary := Some ''BOOKED''\<rparr>))"
proof -
  have up: "toUpperCase mid = ''AVAILABLE''"
    using assms(1) by (rule same_letters_upper) simp
  have "js_or_str (summary ev) [] = pre @ mid @ post"
    using assms(2) by simp
  with up have av: "available_label ev"
    unfolding available_label_iff by blast
  have "(eventId, ev) \<in> set (calendar w)"
    using assms(8) by (rule map_of_SomeD)
  then have "ev \<in> snd ` set (calendar w)"
    by force
  with av assms(9) have "ev \<in> set (filter available_label
           (sort_key (start_key en)
              (filter (overlaps en (now en) (oneMonthFromNow en)) (map snd (calendar w)))))"
    by simp
  then have l: "\<exists>evs. get_available en w = (json (EventList evs), w) \<and> ev \<in> set evs"
    unfolding get_available_result [OF assms(3) assms(4)] by blast
  from av have inc: "str_includes (toUpperCase (js_or_str (summary ev) [])) ''AVAILABLE''"
    by (simp add: available_label_def)
  have b: "\<exists>row w'. book en eventId userId w = (json (AppointmentRow row), w')
             \<and> googleEventId row = Some eventId \<and> status row = BOOKED
             \<and> map_of (calendar w') eventId = Some (ev\<lparr>summary := Some ''BOOKED''\<rparr>)"
    unfolding book_success [OF assms(3) assms(5) assms(6) assms(7) assms(8) inc assms(10)
        assms(11) assms(12) assms(13)]
    by (simp add: map_of_update_same json_def)
  from l b show ?thesis by blast
qed

theorem token_inside_longer_word_counts_as_available_witness:
  "same_letters ''available'' ''AVAILABLE''
   \<and> summary slot_d = Some (''not '' @ ''available'' @ [])
   \<and> map_of (calendar sample_world) ''slot-d'' = Some slot_d
   \<and> overlaps sample_env (now sample_env) (oneMonthFromNow sample_env) slot_d
   \<and> (\<exists>evs. get_available sample_env sample_world = (json (EventList evs), sample_world)
         \<and> slot_d \<in> set evs)
   \<and> (\<exists>row w'. book sample_env ''slot-d'' None sample_world = (json (AppointmentRow row), w')
         \<and> googleEventId row = Some ''slot-d'' \<and> status row = BOOKED
         \<and> map_of (calendar w') ''slot-d'' = Some (slot_d\<lparr>summary := Some ''BOOKED''\<rparr>))"
proof -
  let ?sb = "\<lparr>dateTime = Some ''2025-12-15T14:00:00Z'', date = None\<rparr>"
  let ?eb = "\<lparr>dateTime = Some ''2025-12-15T15:00:00Z'', date = None\<rparr>"
  have a1: "same_letters ''available'' ''AVAILABLE''"
    by (simp add: same_letters_def same_letter_def)
  have a2: "summary slot_d = Some (''not '' @ ''available'' @ [])" by (simp add: slot_d_def)
  have a3: "tokensSet sample_world" by (simp add: sample_defs)
  have a4: "\<not> list_throws sample_env" by (simp add: sample_defs)
  have a5: "\<not> get_throws sample_env" by (simp add: sample_defs)
  have a6: "\<not> update_throws sample_env" by (simp add: sample_defs)
  have a7: "\<not> create_throws sample_env" by (simp add: sample_defs)
  have a8: "map_of (calendar sample_world) ''slot-d'' = Some slot_d" by (simp add: sample_defs)
  have a9: "overlaps sample_env (now sample_env) (oneMonthFromNow sample_env) slot_d"
    by (simp add: overlaps_def event_start_def event_end_def new_Date_def js_or_def sample_defs)
  have a10: "start slot_d = Some ?sb" by (simp add: slot_d_def timed_def)
  have a11: "end' slot_d = Some ?eb" by (simp add: slot_d_def timed_def)
  have a12: "boundary_time sample_env ?sb = Some 1765807200000"
    by (simp add: boundary_time_def sample_env_def sample_parse_def)
  have a13: "boundary_time sample_env ?eb = Some 1765810800000"
    by (simp add: boundary_time_def sample_env_def sample_parse_def)
  show ?thesis
    using a1 a2 a8 a9
      token_inside_longer_word_counts_as_available
        [OF a1 a2 a3 a4 a5 a6 a7 a8 a9 a10 a11 a12 a13, of None]
    by blast
qed

text \<open>The labels of the sample slots: UNAVAILABLE and "not available" pass, BOOKED does not.\<close>

lemma not_available_label_example:
  "available_label slot_d" and "available_label slot_c" and "\<not> available_label slot_b"
  by (simp_all add: available_label_def toUpperCase_def upper_char_def
      slot_b_def slot_c_def slot_d_def)

text \<open>
  C4. When the handshake is done and the calendar's \<open>list\<close> does not throw,
  \<open>GET /available\<close> answers 200 and changes nothing. The calendar is asked for the single
  slots overlapping the window from \<open>now\<close> to \<open>oneMonthFromNow\<close> in ascending order of
  start; the answer holds exactly those of them (each as often as the calendar holds it)
  whose label contains AVAILABLE after upper-casing, still in ascending order of start.
  Every returned slot starts before the end of the window and ends after its beginning,
  and no slot whose label fails the test is returned.
\<close>

theorem list_available_exact_sorted:
  assumes "tokensSet w" and "\<not> list_throws en"
  shows "\<exists>evs. get_available en w = (json (EventList evs), w)
           \<and> mset evs =
               filter_mset
                 (\<lambda>e. overlaps en (now en) (oneMonthFromNow en) e
                      \<and> str_includes (toUpperCase (js_or_str (summary e) [])) ''AVAILABLE'')
                 (mset (map snd (calendar w)))
           \<and> sorted (map (start_key en) evs)
           \<and> (\<forall>e \<in> set evs. \<exists>s t. event_start en e = Some s \<and> event_end en e = Some t
                  \<and> start_key en e = s \<and> s < oneMonthFromNow en \<and> now en < t)
           \<and> (\<forall>e. \<not> str_includes (toUpperCase (js_or_str (summary e) [])) ''AVAILABLE''
                  \<longrightarrow> e \<notin> set evs)"
proof -
  let ?P = "overlaps en (now en) (oneMonthFromNow en)"
  let ?items = "sort_key (start_key en) (filter ?P (map snd (calendar w)))"
  let ?evs = "filter available_label ?items"
  have m: "mset ?evs = filter_mset (\<lambda>e. ?P e \<and> available_label e) (mset (map snd (calendar w)))"
    by (simp add: filter_filter_mset conj_commute)
  have "sorted (map (start_key en) ?items)"
    by (rule sorted_sort_key)
  then have s: "sorted (map (start_key en) ?evs)"
    by (rule sorted_map_filter)
  have o: "\<forall>e \<in> set ?evs. \<exists>s t. event_start en e = Some s \<and> event_end en e = Some t
                  \<and> start_key en e = s \<and> s < oneMonthFromNow en \<and> now en < t"
    by (auto simp: overlaps_def start_key_def split: option.splits)
  have x: "\<forall>e. \<not> available_label e \<longrightarrow> e \<notin> set ?evs"
    by simp
  show ?thesis
    unfolding get_available_result [OF assms]
    using m s o x by (simp add: json_def available_label_def)
qed

theorem list_available_exact_sorted_witness:
  "tokensSet sample_world \<and> \<not> list_throws sample_env
   \<and> get_available sample_env sample_world
       = (json (EventList [slot_c, slot_a, slot_d]), sample_world)
   \<and> sorted (map (start_key sample_env) [slot_c, slot_a, slot_d])
   \<and> mset [slot_c, slot_a, slot_d] =
       filter_mset
         (\<lambda>e. overlaps sample_env (now sample_env) (oneMonthFromNow sample_env) e
              \<and> str_includes (toUpperCase (js_or_str (summary e) [])) ''AVAILABLE'')
         (mset (map snd (calendar sample_world)))"
proof -
  have h1: "tokensSet sample_world" by (simp add: sample_defs)
  have h2: "\<not> list_throws sample_env" by (simp add: sample_defs)
  have k: "start_key sample_env slot_e = 1769940000000"
    "start_key sample_env slot_d = 1765807200000"
    "start_key sample_env slot_a = 1765357200000"
    "start_key sample_env slot_b = 1765411200000"
    "start_key sample_env slot_c = 1764756000000"
    by (simp_all add: start_key_def event_start_def new_Date_def js_or_def sample_defs)
  have o: "\<not> overlaps sample_env (now sample_env) (oneMonthFromNow sample_env) slot_e"
    "overlaps sample_env (now sample_env) (oneMonthFromNow sample_env) slot_d"
    "overlaps sample_env (now sample_env) (oneMonthFromNow sample_env) slot_a"
    "overlaps sample_env (now sample_env) (oneMonthFromNow sample_env) slot_b"
    "overlaps sample_env (now sample_env) (oneMonthFromNow sample_env) slot_c"
    by (simp_all add: overlaps_def event_start_def event_end_def new_Date_def js_or_def
        sample_defs)
  have a: "available_label slot_d" "available_label slot_a" "\<not> available_label slot_b"
    "available_label slot_c"
    by (simp_all add: available_label_def toUpperCase_def upper_char_def
        slot_a_def slot_b_def slot_c_def slot_d_def)
  have c: "map snd (calendar sample_world) = [slot_e, slot_d, slot_a, slot_b, slot_c]"
    by (simp add: sample_world_def)
  have g: "get_available sample_env sample_world
       = (json (EventList [slot_c, slot_a, slot_d]), sample_world)"
    unfolding get_available_result [OF h1 h2] c by (simp add: o k a)
  from list_available_exact_sorted [OF h1 h2] g
  have "sorted (map (start_key sample_env) [slot_c, slot_a, slot_d])
     \<and> mset [slot_c, slot_a, slot_d] =
       filter_mset
         (\<lambda>e. overlaps sample_env (now sample_env) (oneMonthFromNow sample_env) e
              \<and> str_includes (toUpperCase (js_or_str (summary e) [])) ''AVAILABLE'')
         (mset (map snd (calendar sample_world)))"
    by (auto simp: json_def)
  with h1 h2 g show ?thesis by blast
qed

section \<open>What any sequence of requests can do to a ledger row\<close>

lemma row_step_refl: "row_step r r"
  by (simp add: row_step_def)

lemma row_step_trans: "row_step a b \<Longrightarrow> row_step b c \<Longrightarrow> row_step a c"
  by (auto simp: row_step_def)

lemma ledger_step_refl: "ledger_step rows rows"
  by (simp add: ledger_step_def list_all2_same row_step_refl)

lemma ledger_step_append: "ledger_step rows (rows @ new)"
  by (simp add: ledger_step_def list_all2_same row_step_refl)

lemma ledger_step_map:
  "(\<And>r. row_step r (f r)) \<Longrightarrow> ledger_step rows (map f rows)"
  by (simp add: ledger_step_def list_all2_conv_all_nth)

lemma ledger_step_nth:
  "ledger_step old new \<longleftrightarrow>
     length old \<le> length new \<and> (\<forall>i < length old. row_step (old ! i) (new ! i))"
  by (auto simp: ledger_step_def list_all2_conv_all_nth)

lemma ledger_step_trans:
  assumes "ledger_step a b" and "ledger_step b c"
  shows "ledger_step a c"
proof -
  have len: "length a \<le> length b" "length b \<le> length c"
    using assms by (simp_all add: ledger_step_nth)
  have "row_step (a ! i) (c ! i)" if "i < length a" for i
  proof -
    from that len have "i < length b" by simp
    with assms(2) have "row_step (b ! i) (c ! i)" by (simp add: ledger_step_nth)
    moreover from assms(1) that have "row_step (a ! i) (b ! i)" by (simp add: ledger_step_nth)
    ultimately show ?thesis by (rule row_step_trans [rotated])
  qed
  with len show ?thesis by (simp add: ledger_step_nth)
qed

lemma book_appends:
  "\<exists>new. appointments (snd (book en eventId userId w)) = appointments w @ new
     \<and> length new \<le> 1
     \<and> (\<forall>r \<in> set new. status r = BOOKED \<and> googleEventId r = Some eventId
           \<and> patientId r = userId \<and> appointment_id r = next_id w)
     \<and> (\<forall>row. fst (book en eventId userId w) = json (AppointmentRow row) \<longrightarrow> new = [row])"
  by (auto simp: book_def events_get_def events_update_def appointment_create_def Let_def
      json_def send_def split: sum.splits option.splits)

lemma cancel_maps:
  "appointments (snd (cancel en eventId userId w)) = appointments w
   \<or> appointments (snd (cancel en eventId userId w)) =
       map (\<lambda>r. if googleEventId r = Some eventId \<and> where_eq userId (patientId r)
                     \<and> status r = BOOKED
                 then r\<lparr>status := CANCELLED\<rparr> else r)
           (appointments w)"
  by (auto simp: cancel_def events_get_def events_update_def appointment_updateMany_def Let_def
      split: sum.splits option.splits)

lemma handle_ledger_step:
  "ledger_step (appointments w) (appointments (snd (handle en rq w)))"
proof (cases rq)
  case (Authorize qcode)
  then show ?thesis by (simp add: redirect_def ledger_step_refl)
next
  case Available
  then show ?thesis
    by (simp add: get_available_def events_list_def ledger_step_refl)
next
  case (Book eventId userId)
  obtain new where "appointments (snd (book en eventId userId w)) = appointments w @ new"
    using book_appends by blast
  with Book show ?thesis by (simp add: ledger_step_append)
next
  case (Cancel eventId userId)
  have "ledger_step (appointments w)
          (map (\<lambda>r. if googleEventId r = Some eventId \<and> where_eq userId (patientId r)
                        \<and> status r = BOOKED
                    then r\<lparr>status := CANCELLED\<rparr> else r)
               (appointments w))"
    by (rule ledger_step_map) (simp add: row_step_def)
  with cancel_maps [of en eventId userId w] Cancel show ?thesis
    by (auto simp: ledger_step_refl)
next
  case (Mine userId)
  then show ?thesis
    by (simp add: mine_def appointment_findMany_def ledger_step_refl)
qed

lemma run_ledger_step: "ledger_step (appointments w) (appointments (run steps w))"
proof (induction steps arbitrary: w)
  case Nil
  show ?case by (simp add: ledger_step_refl)
next
  case (Cons step steps)
  obtain en rq where step: "step = (en, rq)" by (cases step)
  have "ledger_step (appointments w) (appointments (snd (handle en rq w)))"
    by (rule handle_ledger_step)
  moreover have "ledger_step (appointments (snd (handle en rq w)))
      (appointments (run steps (snd (handle en rq w))))"
    by (rule Cons.IH)
  ultimately show ?case
    unfolding step by (simp add: ledger_step_trans)
qed

text \<open>
  C5. After any sequence of requests (authorization, listing, booking, cancelling,
  listing one's own), in any environments, every row the ledger held is still at its
  position; its slot reference is what it was; if its status differs, it was BOOKED and is
  now CANCELLED; and a row that was CANCELLED is identical to what it was. A booking never
  touches an existing row: it leaves the ledger as it is or appends one new BOOKED row
  carrying the next id, and whenever it answers with a row, that row is the appended one.
\<close>

theorem ledger_rows_invariant:
  "length (appointments w) \<le> length (appointments (run steps w))
   \<and> (\<forall>i < length (appointments w).
         googleEventId (appointments (run steps w) ! i) = googleEventId (appointments w ! i)
       \<and> appointment_id (appointments (run steps w) ! i) = appointment_id (appointments w ! i)
       \<and> (status (appointments (run steps w) ! i) \<noteq> status (appointments w ! i) \<longrightarrow>
            status (appointments w ! i) = BOOKED
            \<and> status (appointments (run steps w) ! i) = CANCELLED)
       \<and> (status (appointments w ! i) = CANCELLED \<longrightarrow>
            appointments (run steps w) ! i = appointments w ! i))
   \<and> (\<exists>new. appointments (snd (book en eventId userId w)) = appointments w @ new
         \<and> length new \<le> 1
         \<and> (\<forall>r \<in> set new. status r = BOOKED \<and> googleEventId r = Some eventId
               \<and> appointment_id r = next_id w)
         \<and> (\<forall>row. fst (book en eventId userId w) = json (AppointmentRow row)
               \<longrightarrow> new = [row]))"
proof -
  have "ledger_step (appointments w) (appointments (run steps w))"
    by (rule run_ledger_step)
  then have len: "length (appointments w) \<le> length (appointments (run steps w))"
    and rows: "\<forall>i < length (appointments w).
        row_step (appointments w ! i) (appointments (run steps w) ! i)"
    by (simp_all add: ledger_step_nth)
  from rows have "\<forall>i < length (appointments w).
         googleEventId (appointments (run steps w) ! i) = googleEventId (appointments w ! i)
       \<and> appointment_id (appointments (run steps w) ! i) = appointment_id (appointments w ! i)
       \<and> (status (appointments (run steps w) ! i) \<noteq> status (appointments w ! i) \<longrightarrow>
            status (appointments w ! i) = BOOKED
            \<and> status (appointments (run steps w) ! i) = CANCELLED)
       \<and> (status (appointments w ! i) = CANCELLED \<longrightarrow>
            appointments (run steps w) ! i = appointments w ! i)"
    by (auto simp: row_step_def)
  moreover have "\<exists>new. appointments (snd (book en eventId userId w)) = appointments w @ new
         \<and> length new \<le> 1
         \<and> (\<forall>r \<in> set new. status r = BOOKED \<and> googleEventId r = Some eventId
               \<and> appointment_id r = next_id w)
         \<and> (\<forall>row. fst (book en eventId userId w) = json (AppointmentRow row)
               \<longrightarrow> new = [row])"
    using book_appends [of en eventId userId w] by blast
  ultimately show ?thesis
    using len by blast
qed

text \<open>
  The sample row is cancelled and the slot is booked again: the first row stays CANCELLED
  and a second row is appended.
\<close>

lemma rebook_example:
  "appointments (run [(sample_env, Cancel ''slot-b'' None), (sample_env, Book ''slot-b'' None)]
                   sample_world)
   = [sample_row\<lparr>status := CANCELLED\<rparr>,
      \<lparr>appointment_id = 2, startTime = 1765411200000, endTime = 1765497600000,
       status = BOOKED, googleEventId = Some ''slot-b'', patientId = None,
       createdAt = 1764547200123\<rparr>]"
  by (simp add: cancel_def book_def events_get_def events_update_def appointment_updateMany_def
      appointment_create_def where_eq_def Let_def new_Date_def js_or_def js_or_str_def
      toUpperCase_def upper_char_def sample_defs)

theorem ledger_rows_invariant_witness:
  "appointments sample_world = [sample_row]
   \<and> appointments
        (run [(sample_env, Cancel ''slot-b'' None), (sample_env, Book ''slot-b'' None)] sample_world)
      = [sample_row\<lparr>status := CANCELLED\<rparr>,
         \<lparr>appointment_id = 2, startTime = 1765411200000, endTime = 1765497600000,
          status = BOOKED, googleEventId = Some ''slot-b'', patientId = None,
          createdAt = 1764547200123\<rparr>]
   \<and> googleEventId (appointments
        (run [(sample_env, Cancel ''slot-b'' None), (sample_env, Book ''slot-b'' None)] sample_world)
        ! 0) = googleEventId sample_row
   \<and> (\<exists>new. appointments (snd (book sample_env ''slot-a'' None sample_world)) = [sample_row] @ new
         \<and> length new \<le> 1
         \<and> (\<forall>r \<in> set new. status r = BOOKED \<and> googleEventId r = Some ''slot-a''
               \<and> appointment_id r = 2))"
proof -
  let ?steps = "[(sample_env, Cancel ''slot-b'' None), (sample_env, Book ''slot-b'' None)]"
  have a: "appointments sample_world = [sample_row]" by (simp add: sample_world_def)
  have n: "next_id sample_world = 2" by (simp add: sample_world_def)
  note t = ledger_rows_invariant [of sample_world ?steps sample_env "''slot-a''" None]
  from t a have g: "googleEventId (appointments (run ?steps sample_world) ! 0)
      = googleEventId sample_row"
    by simp
  from t a n have b: "\<exists>new. appointments (snd (book sample_env ''slot-a'' None sample_world))
        = [sample_row] @ new
         \<and> length new \<le> 1
         \<and> (\<forall>r \<in> set new. status r = BOOKED \<and> googleEventId r = Some ''slot-a''
               \<and> appointment_id r = 2)"
    by auto
  from a rebook_example g b show ?thesis by blast
qed

end
